theory Spec2Isabelle
  imports Complex_Main "HOL-Library.AList"
begin

section \<open>Python values\<close>

text \<open>
  A Python \<^verbatim>\<open>str\<close> is a sequence of Unicode code points. Document text, captured
  groups and display strings are lists of code points; \<open>cps\<close> turns an ASCII literal into
  one. The keys of the dictionaries are the ASCII literals written in the source and are
  kept as HOL strings. A dictionary is an association list in insertion order:
  \<open>map_of\<close> reads a key, \<open>AList.update\<close> is the assignment \<^verbatim>\<open>d[k] = v\<close> (a new
  key goes last, an old key keeps its place).
\<close>

type_synonym pystr = "nat list"

definition cps :: "string \<Rightarrow> pystr" where
  "cps s = map of_char s"

subsection \<open>Floats\<close>

text \<open>
  A Python \<^verbatim>\<open>float\<close> is an IEEE 754 binary64 value: a sign with a magnitude that is a
  binary64-representable rational, an infinity, or NaN. The sign is \<open>True\<close> for negative,
  so \<open>Finite True 0\<close> is \<^verbatim>\<open>-0.0\<close>. Every operation computes the exact rational result
  and rounds it to nearest, ties to even.
\<close>

datatype pyfloat = Finite bool rat | Infinity bool | NaN

function bit_length :: "int \<Rightarrow> int" where
  "bit_length n = (if n \<le> 0 then 0 else 1 + bit_length (n div 2))"
  by pat_completeness auto
termination
  by (relation "measure nat") auto

declare bit_length.simps [simp del]

definition pow2 :: "int \<Rightarrow> rat" where
  "pow2 k = (if 0 \<le> k then 2 ^ nat k else 1 / 2 ^ nat (- k))"

text \<open>\<open>ilog2 m\<close> is the exponent \<open>e\<close> with \<open>2^e \<le> m < 2^(e+1)\<close>, for \<open>0 < m\<close>.\<close>

definition ilog2 :: "rat \<Rightarrow> int" where
  "ilog2 m =
     (if 1 \<le> m then bit_length \<lfloor>m\<rfloor> - 1
      else let b = bit_length \<lfloor>1 / m\<rfloor>
           in if pow2 (1 - b) \<le> m then 1 - b else - b)"

definition round_half_even :: "rat \<Rightarrow> int" where
  "round_half_even x =
     (let f = \<lfloor>x\<rfloor>; d = x - of_int f
      in if d < 1 / 2 then f else if 1 / 2 < d then f + 1
         else if even f then f else f + 1)"

text \<open>
  Rounding a magnitude to binary64: 53 significant bits, the smallest spacing
  \<open>2^-1074\<close> (subnormals), overflow to infinity from \<open>2^1024 - 2^970\<close> on.
\<close>

definition round_double :: "bool \<Rightarrow> rat \<Rightarrow> pyfloat" where
  "round_double s m =
     (if m = 0 then Finite s 0
      else let g = max (ilog2 m - 52) (- 1074);
               n = round_half_even (m / pow2 g)
           in if 971 < g \<or> (g = 971 \<and> 2 ^ 53 \<le> n) then Infinity s
              else Finite s (of_int n * pow2 g))"

definition float_of_int :: "int \<Rightarrow> pyfloat" where
  "float_of_int n = round_double (n < 0) (of_int \<bar>n\<bar>)"

fun float_mul :: "pyfloat \<Rightarrow> pyfloat \<Rightarrow> pyfloat" where
  "float_mul (Finite s m) (Finite t n) = round_double (s \<noteq> t) (m * n)"
| "float_mul (Finite s m) (Infinity t) = (if m = 0 then NaN else Infinity (s \<noteq> t))"
| "float_mul (Infinity s) (Finite t n) = (if n = 0 then NaN else Infinity (s \<noteq> t))"
| "float_mul (Infinity s) (Infinity t) = Infinity (s \<noteq> t)"
| "float_mul NaN y = NaN"
| "float_mul x NaN = NaN"

text \<open>\<^verbatim>\<open>x / y\<close> on floats raises ZeroDivisionError for a zero divisor: \<open>None\<close> here.\<close>

fun float_div :: "pyfloat \<Rightarrow> pyfloat \<Rightarrow> pyfloat option" where
  "float_div x (Finite t n) =
     (if n = 0 then None
      else Some (case x of
                   Finite s m \<Rightarrow> round_double (s \<noteq> t) (m / n)
                 | Infinity s \<Rightarrow> Infinity (s \<noteq> t)
                 | NaN \<Rightarrow> NaN))"
| "float_div (Finite s m) (Infinity t) = Some (Finite (s \<noteq> t) 0)"
| "float_div (Infinity s) (Infinity t) = Some NaN"
| "float_div NaN (Infinity t) = Some NaN"
| "float_div x NaN = Some NaN"

definition signed :: "bool \<Rightarrow> rat \<Rightarrow> rat" where
  "signed s m = (if s then - m else m)"

fun float_sub :: "pyfloat \<Rightarrow> pyfloat \<Rightarrow> pyfloat" where
  "float_sub (Finite s m) (Finite t n) =
     (let d = signed s m - signed t n
      in if d = 0 then Finite (s \<and> \<not> t \<and> m = 0 \<and> n = 0) 0
         else round_double (d < 0) \<bar>d\<bar>)"
| "float_sub (Finite s m) (Infinity t) = Infinity (\<not> t)"
| "float_sub (Infinity s) (Finite t n) = Infinity s"
| "float_sub (Infinity s) (Infinity t) = (if s = t then NaN else Infinity s)"
| "float_sub NaN y = NaN"
| "float_sub x NaN = NaN"

text \<open>The comparison \<^verbatim>\<open>x > 0\<close>.\<close>

fun float_pos :: "pyfloat \<Rightarrow> bool" where
  "float_pos (Finite s m) = (\<not> s \<and> 0 < m)"
| "float_pos (Infinity s) = (\<not> s)"
| "float_pos NaN = False"

subsection \<open>Values, dictionaries and exceptions\<close>

text \<open>
  The values of a field mapping are strings and floats. An exception is a value of
  \<open>pyerr\<close>; a function that can raise returns \<open>pyerr + 'a\<close>, with \<open>Inl\<close> the exception.
\<close>

datatype pyval = PyStr pystr | PyFloat pyfloat

datatype pyerr = TypeError | ZeroDivisionError | AttributeError

type_synonym pydict = "(string \<times> pyval) list"

definition and_then :: "pyerr + 'a \<Rightarrow> ('a \<Rightarrow> pyerr + 'b) \<Rightarrow> pyerr + 'b" where
  "and_then r f = (case r of Inl e \<Rightarrow> Inl e | Inr x \<Rightarrow> f x)"

text \<open>
  The operators as \<^verbatim>\<open>perform_calculations\<close> uses them. \<^verbatim>\<open>v * n\<close> with an int \<open>n\<close>
  multiplies a float and repeats a string; \<^verbatim>\<open>/\<close>, \<^verbatim>\<open>-\<close> and \<^verbatim>\<open>> 0\<close> raise TypeError
  when an operand is a string.
\<close>

fun py_mul_int :: "pyval \<Rightarrow> int \<Rightarrow> pyerr + pyval" where
  "py_mul_int (PyFloat x) n = Inr (PyFloat (float_mul x (float_of_int n)))"
| "py_mul_int (PyStr s) n = Inr (PyStr (concat (replicate (nat n) s)))"

fun py_truediv :: "pyval \<Rightarrow> pyval \<Rightarrow> pyerr + pyval" where
  "py_truediv (PyFloat x) (PyFloat y) =
     (case float_div x y of None \<Rightarrow> Inl ZeroDivisionError | Some q \<Rightarrow> Inr (PyFloat q))"
| "py_truediv (PyStr s) y = Inl TypeError"
| "py_truediv x (PyStr s) = Inl TypeError"

fun py_truediv_int :: "pyval \<Rightarrow> int \<Rightarrow> pyerr + pyval" where
  "py_truediv_int (PyFloat x) n = py_truediv (PyFloat x) (PyFloat (float_of_int n))"
| "py_truediv_int (PyStr s) n = Inl TypeError"

fun py_sub :: "pyval \<Rightarrow> pyval \<Rightarrow> pyerr + pyval" where
  "py_sub (PyFloat x) (PyFloat y) = Inr (PyFloat (float_sub x y))"
| "py_sub (PyStr s) y = Inl TypeError"
| "py_sub x (PyStr s) = Inl TypeError"

fun py_gt_zero :: "pyval \<Rightarrow> pyerr + bool" where
  "py_gt_zero (PyFloat x) = Inr (float_pos x)"
| "py_gt_zero (PyStr s) = Inl TypeError"

section \<open>The calculation engine\<close>

text \<open>
  \<^verbatim>\<open>perform_calculations(salary_data, itr_data)\<close>: five rules in the order of the source,
  each guarded by the membership tests of its \<^verbatim>\<open>if\<close>; \<open>c1\<close> to \<open>c4\<close> are the
  dictionary \<^verbatim>\<open>calculations\<close> after each rule.
\<close>

definition perform_calculations :: "pydict \<Rightarrow> pydict \<Rightarrow> pyerr + pydict" where
  "perform_calculations salary_data itr_data =
     and_then
       (case map_of salary_data ''net_amount'' of
          None \<Rightarrow> Inr []
        | Some net \<Rightarrow>
            and_then (py_mul_int net 12)
              (\<lambda>v. Inr (AList.update ''annual_salary'' v [])))
     (\<lambda>c1. and_then
       (case map_of itr_data ''total_income'' of
          None \<Rightarrow> Inr c1
        | Some income \<Rightarrow>
            and_then (py_truediv_int income 12)
              (\<lambda>v. Inr (AList.update ''monthly_income_from_itr'' v c1)))
     (\<lambda>c2. and_then
       (case map_of salary_data ''gross_salary'' of
          None \<Rightarrow> Inr c2
        | Some gross \<Rightarrow>
            (case map_of salary_data ''tax_deducted'' of
               None \<Rightarrow> Inr c2
             | Some tax \<Rightarrow>
                 and_then (py_gt_zero gross)
                   (\<lambda>positive.
                      if positive
                      then and_then (py_truediv tax gross)
                             (\<lambda>q. and_then (py_mul_int q 100)
                               (\<lambda>v. Inr (AList.update ''tax_percentage'' v c2)))
                      else Inr c2)))
     (\<lambda>c3. and_then
       (case map_of salary_data ''tax_deducted'' of
          None \<Rightarrow> Inr c3
        | Some tax \<Rightarrow>
            and_then (py_mul_int tax 12)
              (\<lambda>v. Inr (AList.update ''annual_tax'' v c3)))
     (\<lambda>c4.
       (case map_of itr_data ''total_income'' of
          None \<Rightarrow> Inr c4
        | Some income \<Rightarrow>
            (case map_of c4 ''annual_salary'' of
               None \<Rightarrow> Inr c4
             | Some annual \<Rightarrow>
                 and_then (py_sub income annual)
                   (\<lambda>v. Inr (AList.update ''income_difference'' v c4))))))))"

section \<open>Text and the runtime's character tables\<close>

text \<open>
  \<open>is_space\<close> is \<^verbatim>\<open>str.isspace\<close> on one code point, which is also the class
  \<^verbatim>\<open>\s\<close> of a \<^verbatim>\<open>str\<close> pattern. \<open>decimal_value\<close> is \<^verbatim>\<open>unicodedata.decimal\<close>:
  the decimal digits (category Nd, the class \<^verbatim>\<open>\d\<close>) come in runs of ten
  that start at the code points of \<open>decimal_zeros\<close> (Unicode 14).
\<close>

definition is_space :: "nat \<Rightarrow> bool" where
  "is_space c =
     (9 \<le> c \<and> c \<le> 13 \<or> 28 \<le> c \<and> c \<le> 32 \<or> c = 133 \<or> c = 160 \<or> c = 5760 \<or>
      8192 \<le> c \<and> c \<le> 8202 \<or> c = 8232 \<or> c = 8233 \<or> c = 8239 \<or> c = 8287 \<or>
      c = 12288)"

definition decimal_zeros :: "nat list" where
  "decimal_zeros =
     [48, 1632, 1776, 1984, 2406, 2534, 2662, 2790, 2918, 3046, 3174, 3302, 3430, 3558,
      3664, 3792, 3872, 4160, 4240, 6112, 6160, 6470, 6608, 6784, 6800, 6992, 7088, 7232,
      7248, 42528, 43216, 43264, 43472, 43504, 43600, 44016, 65296, 66720, 68912, 69734,
      69872, 69942, 70096, 70384, 70736, 70864, 71248, 71360, 71472, 71904, 72016, 72784,
      73040, 73120, 92768, 92864, 93008, 120782, 120792, 120802, 120812, 120822, 123200,
      123632, 125264, 130032]"

definition decimal_value :: "nat \<Rightarrow> nat option" where
  "decimal_value c =
     (case filter (\<lambda>z. z \<le> c \<and> c < z + 10) decimal_zeros of
        [] \<Rightarrow> None
      | z # zs \<Rightarrow> Some (c - z))"

definition is_decimal :: "nat \<Rightarrow> bool" where
  "is_decimal c = (decimal_value c \<noteq> None)"

definition py_strip :: "pystr \<Rightarrow> pystr" where
  "py_strip s = rev (dropWhile is_space (rev (dropWhile is_space s)))"

text \<open>\<^verbatim>\<open>s.replace(',', '')\<close>\<close>

definition remove_commas :: "pystr \<Rightarrow> pystr" where
  "remove_commas s = filter (\<lambda>c. c \<noteq> 44) s"

section \<open>Regular expressions\<close>

text \<open>
  The patterns of the source use literals, character sets, the classes \<^verbatim>\<open>\s\<close> and
  \<^verbatim>\<open>\d\<close>, sequence, alternation, \<^verbatim>\<open>?\<close> on a group or a character, \<^verbatim>\<open>*\<close> and
  \<^verbatim>\<open>+\<close> on a set, and one capturing group. A literal character is a one-element set.
\<close>

datatype item = Chr nat | Rng nat nat | Space | Digit

datatype regex =
    Eps
  | Atom "item list"
  | Seq regex regex
  | Alt regex regex
  | Opt regex
  | Star "item list"
  | Plus "item list"
  | Grp regex

text \<open>
  Matching is case-insensitive (\<^verbatim>\<open>re.IGNORECASE\<close> on a \<^verbatim>\<open>str\<close> pattern): the
  matcher lowers the character of the text with the simple lowercase mapping and looks
  it up among the lowered members of the set and their equivalents (\<open>i\<close> and dotless
  \<open>i\<close>, \<open>s\<close> and long \<open>s\<close>). The members of the source's sets and literals are ASCII
  and the rupee sign; the code points that the mapping sends to one of them are \<open>A\<close> to
  \<open>Z\<close>, U+0130 and the Kelvin sign U+212A, and it moves no code point into or out of
  the classes \<^verbatim>\<open>\s\<close> and \<^verbatim>\<open>\d\<close>, so \<open>sre_lower\<close> leaves every other code
  point where it is.
\<close>

definition sre_lower :: "nat \<Rightarrow> nat" where
  "sre_lower c =
     (if 65 \<le> c \<and> c \<le> 90 then c + 32
      else if c = 304 then 105
      else if c = 8490 then 107
      else c)"

definition fixes_of :: "nat \<Rightarrow> nat list" where
  "fixes_of l = (if l = 105 then [305] else if l = 115 then [383] else [])"

definition literal_has :: "nat \<Rightarrow> nat \<Rightarrow> bool" where
  "literal_has x l = (l = sre_lower x \<or> l \<in> set (fixes_of (sre_lower x)))"

fun item_has :: "item \<Rightarrow> nat \<Rightarrow> bool" where
  "item_has (Chr x) l = literal_has x l"
| "item_has (Rng lo hi) l = list_ex (\<lambda>x. literal_has x l) [lo..<Suc hi]"
| "item_has Space l = is_space l"
| "item_has Digit l = is_decimal l"

definition in_set :: "item list \<Rightarrow> nat \<Rightarrow> bool" where
  "in_set its c = list_ex (\<lambda>it. item_has it (sre_lower c)) its"

text \<open>
  The matcher backtracks: \<open>rmatch r (t, g)\<close> lists, in the order in which the engine
  tries them, the ways \<open>r\<close> can match a prefix of \<open>t\<close>, each as the text left over and
  the group captured so far. An alternation tries its branches from the left, \<^verbatim>\<open>?\<close>,
  \<^verbatim>\<open>*\<close> and \<^verbatim>\<open>+\<close> are greedy.
\<close>

type_synonym mstate = "pystr \<times> pystr option"

fun star :: "item list \<Rightarrow> pystr \<Rightarrow> pystr list" where
  "star its [] = [[]]"
| "star its (c # t) = (if in_set its c then star its t @ [c # t] else [c # t])"

fun rmatch :: "regex \<Rightarrow> mstate \<Rightarrow> mstate list" where
  "rmatch Eps s = [s]"
| "rmatch (Atom its) (t, g) =
     (case t of [] \<Rightarrow> [] | c # u \<Rightarrow> if in_set its c then [(u, g)] else [])"
| "rmatch (Seq r1 r2) s = concat (map (rmatch r2) (rmatch r1 s))"
| "rmatch (Alt r1 r2) s = rmatch r1 s @ rmatch r2 s"
| "rmatch (Opt r) s = rmatch r s @ [s]"
| "rmatch (Star its) (t, g) = map (\<lambda>u. (u, g)) (star its t)"
| "rmatch (Plus its) (t, g) =
     (case t of
        [] \<Rightarrow> []
      | c # u \<Rightarrow> if in_set its c then map (\<lambda>v. (v, g)) (star its u) else [])"
| "rmatch (Grp r) (t, g) =
     map (\<lambda>(u, h). (u, Some (take (length t - length u) t))) (rmatch r (t, g))"

text \<open>
  \<^verbatim>\<open>re.search(pattern, text, re.IGNORECASE)\<close>: the first way to match at the leftmost
  position that has one. The result is \<^verbatim>\<open>match.group(1)\<close>, which is \<open>None\<close> inside
  \<open>Some\<close> when the match did not go through the group.
\<close>

fun search :: "regex \<Rightarrow> pystr \<Rightarrow> pystr option option" where
  "search r [] = (case rmatch r ([], None) of [] \<Rightarrow> None | m # ms \<Rightarrow> Some (snd m))"
| "search r (c # t) =
     (case rmatch r (c # t, None) of [] \<Rightarrow> search r t | m # ms \<Rightarrow> Some (snd m))"

subsection \<open>Writing the patterns\<close>

definition chr :: "char \<Rightarrow> item" where
  "chr c = Chr (of_char c)"

definition rng :: "char \<Rightarrow> char \<Rightarrow> item" where
  "rng a b = Rng (of_char a) (of_char b)"

definition lit :: "string \<Rightarrow> regex" where
  "lit s = foldr (\<lambda>c r. Seq (Atom [chr c]) r) s Eps"

definition seqs :: "regex list \<Rightarrow> regex" where
  "seqs rs = foldr Seq rs Eps"

definition alts :: "regex list \<Rightarrow> regex" where
  "alts rs = foldr Alt rs (Atom [])"

text \<open>
  Every pattern of the source is label synonyms, then \<^verbatim>\<open>\s*:?\s*\<close>, then the
  captured value; the currency patterns have \<^verbatim>\<open>(?:Rs\.?|<rupee sign>|INR)?\s*\<close> before
  the value \<^verbatim>\<open>([\d,]+\.?\d*)\<close>. The rupee sign is U+20B9, code point 8377.
\<close>

definition text_rule :: "string list \<Rightarrow> regex \<Rightarrow> regex" where
  "text_rule labels val =
     seqs [alts (map lit labels), Star [Space], Opt (lit '':''), Star [Space], Grp val]"

definition amount :: regex where
  "amount = seqs [Plus [Digit, chr CHR '',''], Opt (lit ''.''), Star [Digit]]"

definition currency_rule :: "string list \<Rightarrow> regex" where
  "currency_rule labels =
     seqs [alts (map lit labels), Star [Space], Opt (lit '':''), Star [Space],
           Opt (alts [Seq (lit ''Rs'') (Opt (lit ''.'')), Atom [Chr 8377], lit ''INR'']),
           Star [Space], Grp amount]"

definition salary_patterns :: "(string \<times> regex) list" where
  "salary_patterns =
     [(''employee_name'',
         text_rule [''Name'', ''Employee Name'', ''Employee'']
           (Plus [rng CHR ''A'' CHR ''Z'', rng CHR ''a'' CHR ''z'', Space])),
      (''employee_id'',
         text_rule [''Employee ID'', ''Emp ID'', ''Employee No'', ''ID'']
           (Plus [rng CHR ''A'' CHR ''Z'', rng CHR ''a'' CHR ''z'', rng CHR ''0'' CHR ''9''])),
      (''basic_salary'', currency_rule [''Basic Salary'', ''Basic Pay'', ''Basic'']),
      (''hra'', currency_rule [''HRA'', ''House Rent Allowance'']),
      (''pf'', currency_rule [''PF'', ''Provident Fund'']),
      (''gross_salary'', currency_rule [''Gross Salary'', ''Gross Pay'', ''Gross'']),
      (''net_amount'',
         currency_rule
           [''Net Amount'', ''Net Salary'', ''Net Pay'', ''Take Home'', ''Total'', ''Net'']),
      (''tax_deducted'', currency_rule [''Tax Deducted'', ''TDS'', ''Income Tax''])]"

definition salary_currency :: "string list" where
  "salary_currency =
     [''basic_salary'', ''hra'', ''pf'', ''gross_salary'', ''net_amount'', ''tax_deducted'']"

definition itr_patterns :: "(string \<times> regex) list" where
  "itr_patterns =
     [(''pan'',
         text_rule [''PAN'', ''Permanent Account Number'']
           (Plus [rng CHR ''A'' CHR ''Z'', rng CHR ''0'' CHR ''9''])),
      (''assessment_year'',
         text_rule [''Assessment Year'', ''AY'']
           (Alt (seqs [lit ''20'', Atom [Digit], Atom [Digit], lit ''-'',
                       Atom [Digit], Atom [Digit]])
                (seqs [lit ''20'', Atom [Digit], Atom [Digit]]))),
      (''total_income'', currency_rule [''Total Income'', ''Gross Total Income'']),
      (''taxable_income'', currency_rule [''Taxable Income'', ''Net Taxable Income'']),
      (''tax_payable'', currency_rule [''Tax Payable'', ''Total Tax Payable'']),
      (''tax_paid'', currency_rule [''Tax Paid'', ''Total Tax Paid''])]"

definition itr_currency :: "string list" where
  "itr_currency = [''total_income'', ''taxable_income'', ''tax_payable'', ''tax_paid'']"

section \<open>Parsing a float\<close>

text \<open>
  \<^verbatim>\<open>float(s)\<close> on a string, \<open>None\<close> for ValueError. The interpreter first maps the
  string to ASCII: a code point below 127 stays, other white space becomes a blank,
  another decimal digit becomes its ASCII digit, and the string is cut off with a
  question mark at the first code point that is none of these.
\<close>

fun to_ascii :: "pystr \<Rightarrow> pystr" where
  "to_ascii [] = []"
| "to_ascii (c # cs) =
     (if c < 127 then c # to_ascii cs
      else if is_space c then 32 # to_ascii cs
      else (case decimal_value c of
              None \<Rightarrow> [63]
            | Some d \<Rightarrow> (48 + d) # to_ascii cs))"

definition ascii_digit :: "nat \<Rightarrow> bool" where
  "ascii_digit c = (48 \<le> c \<and> c \<le> 57)"

text \<open>
  An underscore is allowed between two digits only. \<open>drop_underscores p s\<close> removes them,
  \<open>p\<close> being the character before \<open>s\<close> (0 at the start).
\<close>

fun drop_underscores :: "nat \<Rightarrow> pystr \<Rightarrow> pystr option" where
  "drop_underscores p [] = (if p = 95 then None else Some [])"
| "drop_underscores p (c # cs) =
     (if c = 95 then (if ascii_digit p then drop_underscores c cs else None)
      else if p = 95 \<and> \<not> ascii_digit c then None
      else map_option ((#) c) (drop_underscores c cs))"

text \<open>The white space that is stripped from both ends is the ASCII one.\<close>

definition c_space :: "nat \<Rightarrow> bool" where
  "c_space c = (9 \<le> c \<and> c \<le> 13 \<or> c = 32)"

definition digits_value :: "pystr \<Rightarrow> nat" where
  "digits_value ds = foldl (\<lambda>a d. 10 * a + (d - 48)) 0 ds"

definition pow10 :: "int \<Rightarrow> rat" where
  "pow10 k = (if 0 \<le> k then 10 ^ nat k else 1 / 10 ^ nat (- k))"

text \<open>The exponent part: nothing, or \<^verbatim>\<open>e\<close> or \<^verbatim>\<open>E\<close>, a sign or none, digits.\<close>

fun parse_exponent :: "pystr \<Rightarrow> int option" where
  "parse_exponent [] = Some 0"
| "parse_exponent (c # cs) =
     (if c = 101 \<or> c = 69 then
        (let neg = (case cs of [] \<Rightarrow> False | d # ds \<Rightarrow> d = 45);
             ds = (case cs of [] \<Rightarrow> [] | d # ds \<Rightarrow> if d = 45 \<or> d = 43 then ds else cs)
         in if ds \<noteq> [] \<and> list_all ascii_digit ds
            then Some (if neg then - int (digits_value ds) else int (digits_value ds))
            else None)
      else None)"

text \<open>
  A number is digits with at most one point and at least one digit, then the exponent
  part; its value is rounded once, from the exact decimal value.
\<close>

definition parse_number :: "bool \<Rightarrow> pystr \<Rightarrow> pyfloat option" where
  "parse_number neg s =
     (let ip = takeWhile ascii_digit s;
          r = dropWhile ascii_digit s;
          fp = (case r of [] \<Rightarrow> [] | c # cs \<Rightarrow> if c = 46 then takeWhile ascii_digit cs else []);
          r' = (case r of [] \<Rightarrow> [] | c # cs \<Rightarrow> if c = 46 then dropWhile ascii_digit cs else r)
      in if ip = [] \<and> fp = [] then None
         else (case parse_exponent r' of
                 None \<Rightarrow> None
               | Some e \<Rightarrow>
                   Some (round_double neg
                     (of_nat (digits_value (ip @ fp)) * pow10 (e - int (length fp))))))"

definition ascii_lower :: "nat \<Rightarrow> nat" where
  "ascii_lower c = (if 65 \<le> c \<and> c \<le> 90 then c + 32 else c)"

definition parse_signed :: "pystr \<Rightarrow> pyfloat option" where
  "parse_signed s =
     (let neg = (case s of [] \<Rightarrow> False | c # cs \<Rightarrow> c = 45);
          r = (case s of [] \<Rightarrow> [] | c # cs \<Rightarrow> if c = 45 \<or> c = 43 then cs else s);
          w = map ascii_lower r
      in if w = cps ''inf'' \<or> w = cps ''infinity'' then Some (Infinity neg)
         else if w = cps ''nan'' then Some NaN
         else parse_number neg r)"

definition py_float :: "pystr \<Rightarrow> pyfloat option" where
  "py_float s =
     (case drop_underscores 0 (to_ascii s) of
        None \<Rightarrow> None
      | Some t \<Rightarrow> parse_signed (rev (dropWhile c_space (rev (dropWhile c_space t)))))"

section \<open>The field extractor\<close>

text \<open>
  The body of the loop \<^verbatim>\<open>for field, pattern in patterns.items()\<close>, the same in both
  extractors but for the list of currency fields: \<open>results\<close> is the dictionary so far.
  Calling \<^verbatim>\<open>replace\<close> or \<^verbatim>\<open>strip\<close> on a group that is \<^verbatim>\<open>None\<close> raises
  AttributeError.
\<close>

definition extract_field :: "string list \<Rightarrow> pystr \<Rightarrow> pydict \<Rightarrow> string \<times> regex \<Rightarrow> pyerr + pydict" where
  "extract_field currency text results rule =
     (case search (snd rule) text of
        None \<Rightarrow> Inr results
      | Some None \<Rightarrow> Inl AttributeError
      | Some (Some group1) \<Rightarrow>
          if fst rule \<in> set currency
          then (case py_float (remove_commas group1) of
                  Some x \<Rightarrow> Inr (AList.update (fst rule) (PyFloat x) results)
                | None \<Rightarrow> Inr (AList.update (fst rule) (PyStr group1) results))
          else Inr (AList.update (fst rule) (PyStr (py_strip group1)) results))"

fun extract_loop :: "string list \<Rightarrow> pystr \<Rightarrow> (string \<times> regex) list \<Rightarrow> pydict \<Rightarrow> pyerr + pydict" where
  "extract_loop currency text [] results = Inr results"
| "extract_loop currency text (rule # rules) results =
     and_then (extract_field currency text results rule) (extract_loop currency text rules)"

definition extract_salary_fields :: "pystr \<Rightarrow> pyerr + pydict" where
  "extract_salary_fields text = extract_loop salary_currency text salary_patterns []"

definition extract_itr_fields :: "pystr \<Rightarrow> pyerr + pydict" where
  "extract_itr_fields text = extract_loop itr_currency text itr_patterns []"

section \<open>The table of calculations\<close>

text \<open>
  The rows of \<^verbatim>\<open>calc_df\<close> as the Salary Analysis tab passes them to \<^verbatim>\<open>st.table\<close>:
  one row for each item of the dictionary, in its order, the name rewritten by
  \<^verbatim>\<open>' '.join(word.capitalize() for word in x.split('_'))\<close> and a float value by
  \<^verbatim>\<open>f"<rupee sign> {value:,.2f}"\<close>. The names are the ASCII names of
  \<^verbatim>\<open>perform_calculations\<close>, so \<open>capitalize\<close> gives the case mapping of ASCII letters.
\<close>

fun split_acc :: "nat \<Rightarrow> pystr \<Rightarrow> pystr \<Rightarrow> pystr list" where
  "split_acc sep w [] = [rev w]"
| "split_acc sep w (c # cs) =
     (if c = sep then rev w # split_acc sep [] cs else split_acc sep (c # w) cs)"

definition ascii_upper :: "nat \<Rightarrow> nat" where
  "ascii_upper c = (if 97 \<le> c \<and> c \<le> 122 then c - 32 else c)"

fun capitalize :: "pystr \<Rightarrow> pystr" where
  "capitalize [] = []"
| "capitalize (c # cs) = ascii_upper c # map ascii_lower cs"

fun join :: "pystr \<Rightarrow> pystr list \<Rightarrow> pystr" where
  "join sep [] = []"
| "join sep [w] = w"
| "join sep (w # ws) = w @ sep @ join sep ws"

definition label_of :: "string \<Rightarrow> pystr" where
  "label_of x = join [32] (map capitalize (split_acc 95 [] (cps x)))"

text \<open>
  The decimal digits of a natural number, the last digit first, and the thousands
  separators put in from that end.
\<close>

function rev_digits :: "nat \<Rightarrow> pystr" where
  "rev_digits n = (48 + n mod 10) # (if n < 10 then [] else rev_digits (n div 10))"
  by pat_completeness auto
termination
  by (relation "measure id") auto

declare rev_digits.simps [simp del]

fun group_rev :: "pystr \<Rightarrow> pystr" where
  "group_rev (a # b # c # d # ds) = a # b # c # 44 # group_rev (d # ds)"
| "group_rev ds = ds"

text \<open>
  The format \<^verbatim>\<open>,.2f\<close>: the exact value rounded to two places, ties to even, the
  sign kept also when the digits are all zero.
\<close>

fun format_2f :: "pyfloat \<Rightarrow> pystr" where
  "format_2f NaN = cps ''nan''"
| "format_2f (Infinity s) = (if s then cps ''-inf'' else cps ''inf'')"
| "format_2f (Finite s m) =
     (let n = nat (round_half_even (m * 100))
      in (if s then cps ''-'' else []) @ rev (group_rev (rev_digits (n div 100))) @
         [46, 48 + n mod 100 div 10, 48 + n mod 10])"

fun display_value :: "pyval \<Rightarrow> pyval" where
  "display_value (PyFloat x) = PyStr ([8377, 32] @ format_2f x)"
| "display_value (PyStr s) = PyStr s"

definition calc_df :: "pydict \<Rightarrow> (pystr \<times> pyval) list" where
  "calc_df data = map (\<lambda>(k, v). (label_of k, display_value v)) data"

section \<open>Well-typed inputs\<close>

text \<open>
  The currency fields that \<^verbatim>\<open>perform_calculations\<close> reads, each absent or a float.
\<close>

definition float_or_absent :: "pydict \<Rightarrow> string \<Rightarrow> bool" where
  "float_or_absent d k = (case map_of d k of Some (PyStr s) \<Rightarrow> False | _ \<Rightarrow> True)"

definition numeric_inputs :: "pydict \<Rightarrow> pydict \<Rightarrow> bool" where
  "numeric_inputs salary_data itr_data =
     (float_or_absent salary_data ''net_amount'' \<and>
      float_or_absent salary_data ''gross_salary'' \<and>
      float_or_absent salary_data ''tax_deducted'' \<and>
      float_or_absent itr_data ''total_income'')"

section \<open>What a pattern binds and captures\<close>

text \<open>
  \<open>binds r\<close>: every match of \<open>r\<close> goes through the capturing group. \<open>atoms r\<close> are the
  sets that consume the characters of a match of \<open>r\<close>, \<open>group_atoms r\<close> those that
  consume the characters of the group.
\<close>

fun binds :: "regex \<Rightarrow> bool" where
  "binds (Grp r) = True"
| "binds (Seq r1 r2) = (binds r1 \<or> binds r2)"
| "binds (Alt r1 r2) = (binds r1 \<and> binds r2)"
| "binds r = False"

fun atoms :: "regex \<Rightarrow> item list" where
  "atoms Eps = []"
| "atoms (Atom its) = its"
| "atoms (Seq r1 r2) = atoms r1 @ atoms r2"
| "atoms (Alt r1 r2) = atoms r1 @ atoms r2"
| "atoms (Opt r) = atoms r"
| "atoms (Star its) = its"
| "atoms (Plus its) = its"
| "atoms (Grp r) = atoms r"

fun group_atoms :: "regex \<Rightarrow> item list" where
  "group_atoms (Grp r) = atoms r"
| "group_atoms (Seq r1 r2) = group_atoms r1 @ group_atoms r2"
| "group_atoms (Alt r1 r2) = group_atoms r1 @ group_atoms r2"
| "group_atoms (Opt r) = group_atoms r"
| "group_atoms r = []"

section \<open>Evaluation rules\<close>

lemma bit_length_numeral [simp]:
  "bit_length 0 = 0"
  "bit_length 1 = 1"
  "bit_length (numeral (Num.Bit0 k)) = 1 + bit_length (numeral k)"
  "bit_length (numeral (Num.Bit1 k)) = 1 + bit_length (numeral k)"
  by (simp_all add: bit_length.simps [of 0] bit_length.simps [of 1]
      bit_length.simps [of "numeral (Num.Bit0 k)"]
      bit_length.simps [of "numeral (Num.Bit1 k)"])

lemma floor_rat_numeral [simp]:
  "\<lfloor>numeral a / numeral b :: rat\<rfloor> = numeral a div numeral b"
  "\<lfloor>1 / numeral b :: rat\<rfloor> = 1 div numeral b"
  using floor_divide_of_int_eq [of "numeral a" "numeral b", where ?'a = rat]
    floor_divide_of_int_eq [of 1 "numeral b", where ?'a = rat]
  by simp_all

lemmas float_eval =
  round_double_def ilog2_def pow2_def round_half_even_def float_of_int_def signed_def Let_def

lemma and_then_simps [simp]:
  "and_then (Inl e) f = Inl e"
  "and_then (Inr x) f = f x"
  by (simp_all add: and_then_def)

lemma float_of_int_12 [simp]: "float_of_int 12 = Finite False 12"
  by (simp add: float_eval)

lemma float_of_int_100 [simp]: "float_of_int 100 = Finite False 100"
  by (simp add: float_eval)

lemma rev_digits_numeral [simp]:
  "rev_digits 0 = [48]"
  "rev_digits (Suc 0) = [49]"
  "rev_digits (numeral k) =
     (48 + numeral k mod 10) #
     (if (numeral k :: nat) < 10 then [] else rev_digits (numeral k div 10))"
  by (simp_all add: rev_digits.simps [of 0] rev_digits.simps [of "Suc 0"]
      rev_digits.simps [of "numeral k"])

lemmas regex_eval =
  currency_rule_def text_rule_def amount_def seqs_def alts_def lit_def chr_def rng_def
  in_set_def literal_has_def sre_lower_def fixes_of_def is_space_def is_decimal_def
  decimal_value_def decimal_zeros_def

lemmas extract_eval =
  extract_salary_fields_def extract_itr_fields_def salary_patterns_def itr_patterns_def
  salary_currency_def itr_currency_def extract_field_def remove_commas_def py_strip_def

lemmas py_float_eval =
  py_float_def parse_signed_def parse_number_def ascii_digit_def ascii_lower_def c_space_def
  digits_value_def pow10_def

section \<open>Properties of the calculation engine\<close>

lemma float_div_pos: "float_pos g \<Longrightarrow> \<exists>q. float_div t g = Some q"
  by (cases g; cases t) auto

lemma float_div_pos_simp [simp]: "float_pos g \<Longrightarrow> float_div t g \<noteq> None"
  using float_div_pos [of g t] by auto

lemma float_or_absent_cases:
  "float_or_absent d k \<Longrightarrow> map_of d k = None \<or> (\<exists>x. map_of d k = Some (PyFloat x))"
  by (auto simp: float_or_absent_def split: option.splits pyval.splits)

text \<open>With floats in the fields it reads, the function returns.\<close>

lemma perform_calculations_returns:
  assumes "numeric_inputs salary_data itr_data"
  shows "\<exists>c. perform_calculations salary_data itr_data = Inr c"
proof -
  from assms have
    "map_of salary_data ''net_amount'' = None \<or>
       (\<exists>x. map_of salary_data ''net_amount'' = Some (PyFloat x))"
    "map_of salary_data ''gross_salary'' = None \<or>
       (\<exists>x. map_of salary_data ''gross_salary'' = Some (PyFloat x))"
    "map_of salary_data ''tax_deducted'' = None \<or>
       (\<exists>x. map_of salary_data ''tax_deducted'' = Some (PyFloat x))"
    "map_of itr_data ''total_income'' = None \<or>
       (\<exists>x. map_of itr_data ''total_income'' = Some (PyFloat x))"
    by (simp_all add: numeric_inputs_def float_or_absent_cases)
  then show ?thesis
    by (elim disjE exE)
      (auto simp: perform_calculations_def update_conv' split: option.splits)
qed

text \<open>What a returned dictionary holds under three of its keys.\<close>

lemma annual_salary_entry:
  "perform_calculations salary_data itr_data = Inr c \<Longrightarrow>
   map_of c ''annual_salary'' =
     (case map_of salary_data ''net_amount'' of
        None \<Rightarrow> None
      | Some v \<Rightarrow> (case py_mul_int v 12 of Inl e \<Rightarrow> None | Inr x \<Rightarrow> Some x))"
  by (auto simp: perform_calculations_def and_then_def update_conv'
      split: option.splits sum.splits if_splits)

lemma income_difference_entry:
  "perform_calculations salary_data itr_data = Inr c \<Longrightarrow>
   map_of c ''income_difference'' =
     (case map_of itr_data ''total_income'' of
        None \<Rightarrow> None
      | Some i \<Rightarrow>
          (case map_of c ''annual_salary'' of
             None \<Rightarrow> None
           | Some a \<Rightarrow> (case py_sub i a of Inl e \<Rightarrow> None | Inr x \<Rightarrow> Some x)))"
  by (auto simp: perform_calculations_def and_then_def update_conv'
      split: option.splits sum.splits if_splits)

lemma tax_percentage_entry:
  "perform_calculations salary_data itr_data = Inr c \<Longrightarrow>
   map_of salary_data ''gross_salary'' = Some (PyFloat g) \<Longrightarrow>
   map_of salary_data ''tax_deducted'' = Some (PyFloat t) \<Longrightarrow>
   map_of c ''tax_percentage'' =
     (if float_pos g
      then map_option (\<lambda>q. PyFloat (float_mul q (float_of_int 100))) (float_div t g)
      else None)"
  by (auto simp: perform_calculations_def and_then_def update_conv'
      split: option.splits sum.splits if_splits)

text \<open>
  When every currency field that the function reads is a float or absent, the call
  returns and the third rule is the guarded division: \<^verbatim>\<open>tax_percentage\<close> is
  \<^verbatim>\<open>(tax_deducted / gross_salary) * 100\<close> when \<^verbatim>\<open>gross_salary > 0\<close> and is absent
  otherwise.
\<close>

lemma tax_percentage_on_floats:
  assumes "numeric_inputs salary_data itr_data"
    and "map_of salary_data ''gross_salary'' = Some (PyFloat g)"
    and "map_of salary_data ''tax_deducted'' = Some (PyFloat t)"
  shows "\<exists>c. perform_calculations salary_data itr_data = Inr c \<and>
           (float_pos g \<longrightarrow>
              (\<exists>q. float_div t g = Some q \<and>
                   map_of c ''tax_percentage'' =
                     Some (PyFloat (float_mul q (float_of_int 100))))) \<and>
           (\<not> float_pos g \<longrightarrow> map_of c ''tax_percentage'' = None)"
proof -
  from perform_calculations_returns [OF assms(1)]
  obtain c where c: "perform_calculations salary_data itr_data = Inr c" ..
  from tax_percentage_entry [OF c assms(2) assms(3)] float_div_pos [of g t]
  have "(float_pos g \<longrightarrow>
           (\<exists>q. float_div t g = Some q \<and>
                map_of c ''tax_percentage'' =
                  Some (PyFloat (float_mul q (float_of_int 100))))) \<and>
        (\<not> float_pos g \<longrightarrow> map_of c ''tax_percentage'' = None)"
    by auto
  with c show ?thesis by blast
qed

lemma tax_percentage_examples:
  "(\<exists>c. perform_calculations
          [(''gross_salary'', PyFloat (Finite False 1000)),
           (''tax_deducted'', PyFloat (Finite False 500))] [] = Inr c \<and>
        map_of c ''tax_percentage'' = Some (PyFloat (Finite False 50))) \<and>
   (\<exists>c. perform_calculations
          [(''gross_salary'', PyFloat (Finite False 0)),
           (''tax_deducted'', PyFloat (Finite False 500))] [] = Inr c \<and>
        map_of c ''tax_percentage'' = None)"
  using
    tax_percentage_on_floats
      [of "[(''gross_salary'', PyFloat (Finite False 1000)),
            (''tax_deducted'', PyFloat (Finite False 500))]" "[]"
          "Finite False 1000" "Finite False 500"]
    tax_percentage_on_floats
      [of "[(''gross_salary'', PyFloat (Finite False 0)),
            (''tax_deducted'', PyFloat (Finite False 500))]" "[]"
          "Finite False 0" "Finite False 500"]
  by (simp add: numeric_inputs_def float_or_absent_def float_eval)

text \<open>
  Under the same condition \<^verbatim>\<open>annual_salary\<close> is there exactly when \<^verbatim>\<open>net_amount\<close>
  is, and \<^verbatim>\<open>income_difference\<close> exactly when \<^verbatim>\<open>total_income\<close> is in the tax
  document mapping and \<^verbatim>\<open>annual_salary\<close> in the result, as their difference.
\<close>

lemma income_difference_on_floats:
  assumes "numeric_inputs salary_data itr_data"
  shows "\<exists>c. perform_calculations salary_data itr_data = Inr c \<and>
           map_of c ''annual_salary'' =
             (case map_of salary_data ''net_amount'' of
                Some (PyFloat n) \<Rightarrow> Some (PyFloat (float_mul n (float_of_int 12)))
              | _ \<Rightarrow> None) \<and>
           ((map_of c ''income_difference'' \<noteq> None) =
              (map_of itr_data ''total_income'' \<noteq> None \<and>
               map_of c ''annual_salary'' \<noteq> None)) \<and>
           map_of c ''income_difference'' =
             (case (map_of itr_data ''total_income'', map_of c ''annual_salary'') of
                (Some (PyFloat i), Some (PyFloat a)) \<Rightarrow> Some (PyFloat (float_sub i a))
              | _ \<Rightarrow> None)"
proof -
  from perform_calculations_returns [OF assms]
  obtain c where c: "perform_calculations salary_data itr_data = Inr c" ..
  from assms have
    n: "map_of salary_data ''net_amount'' = None \<or>
          (\<exists>x. map_of salary_data ''net_amount'' = Some (PyFloat x))" and
    i: "map_of itr_data ''total_income'' = None \<or>
          (\<exists>x. map_of itr_data ''total_income'' = Some (PyFloat x))"
    by (simp_all add: numeric_inputs_def float_or_absent_cases)
  have a: "map_of c ''annual_salary'' =
             (case map_of salary_data ''net_amount'' of
                Some (PyFloat n) \<Rightarrow> Some (PyFloat (float_mul n (float_of_int 12)))
              | _ \<Rightarrow> None)"
    using annual_salary_entry [OF c] n by auto
  have d: "map_of c ''income_difference'' =
             (case (map_of itr_data ''total_income'', map_of c ''annual_salary'') of
                (Some (PyFloat i), Some (PyFloat a)) \<Rightarrow> Some (PyFloat (float_sub i a))
              | _ \<Rightarrow> None)"
    using income_difference_entry [OF c] a n i by auto
  have "(map_of c ''income_difference'' \<noteq> None) =
          (map_of itr_data ''total_income'' \<noteq> None \<and> map_of c ''annual_salary'' \<noteq> None)"
    using d a n i by auto
  with c a d show ?thesis by blast
qed

lemma income_difference_example:
  "\<exists>c. perform_calculations [(''net_amount'', PyFloat (Finite False 50000))]
          [(''total_income'', PyFloat (Finite False 700000))] = Inr c \<and>
       map_of c ''annual_salary'' = Some (PyFloat (Finite False 600000)) \<and>
       map_of c ''income_difference'' = Some (PyFloat (Finite False 100000))"
  using income_difference_on_floats
      [of "[(''net_amount'', PyFloat (Finite False 50000))]"
          "[(''total_income'', PyFloat (Finite False 700000))]"]
  by (simp add: perform_calculations_def numeric_inputs_def float_or_absent_def float_eval)

section \<open>The calculation engine on the raw string of a failed coercion\<close>

text \<open>
  The extractors keep the captured string when it parses to no number, and the
  Document Processing tab passes their mappings to \<^verbatim>\<open>perform_calculations\<close>. The tax
  document extractor returns \<^verbatim>\<open>{'total_income': ','}\<close> for the text
  \<^verbatim>\<open>Total Income: ,\<close>.
\<close>

lemma raw_total_income_extracted:
  "extract_itr_fields (cps ''Total Income: ,'') = Inr [(''total_income'', PyStr (cps '',''))]"
  by (simp add: cps_def extract_eval regex_eval py_float_eval)

text \<open>
  C1. The claim: \<^verbatim>\<open>perform_calculations\<close> never raises, in particular on mappings whose
  currency fields carry the raw string kept after a failed numeric coercion. On the tax
  document mapping \<^verbatim>\<open>{'total_income': ','}\<close> the second rule divides the string by 12
  and the call raises TypeError.
\<close>

theorem perform_calculations_raises_on_raw_string:
  "perform_calculations [] [(''total_income'', PyStr (cps '',''))] = Inl TypeError"
  by (simp add: perform_calculations_def)

text \<open>
  C2. The claim: every entry of the returned mapping is a decimal number. On the salary
  mapping \<^verbatim>\<open>{'net_amount': ','}\<close> the first rule repeats the string twelve times and
  the call returns \<^verbatim>\<open>annual_salary\<close> as a string.
\<close>

theorem perform_calculations_string_metric:
  "perform_calculations [(''net_amount'', PyStr (cps '',''))] [] =
     Inr [(''annual_salary'', PyStr (cps '',,,,,,,,,,,,''))]"
  by (simp add: perform_calculations_def cps_def eval_nat_numeral)

text \<open>
  C3. The claim: for every salary mapping with \<^verbatim>\<open>gross_salary\<close> and \<^verbatim>\<open>tax_deducted\<close>
  the call gives \<^verbatim>\<open>tax_percentage\<close> as \<^verbatim>\<open>(tax_deducted / gross_salary) * 100\<close> when
  \<^verbatim>\<open>gross_salary > 0\<close>, and for \<^verbatim>\<open>{gross_salary: 0, tax_deducted: 500}\<close> the key is
  absent and no error occurs. With that salary mapping and the tax document mapping
  \<^verbatim>\<open>{'total_income': ','}\<close> the second rule raises TypeError before the guard is
  reached; and on \<^verbatim>\<open>{gross_salary: 1000, tax_deducted: ','}\<close> the guard passes and the
  division of the string raises TypeError.
\<close>

theorem guarded_division_raises_on_raw_string:
  "perform_calculations
     [(''gross_salary'', PyFloat (Finite False 0)), (''tax_deducted'', PyFloat (Finite False 500))]
     [(''total_income'', PyStr (cps '',''))] = Inl TypeError \<and>
   perform_calculations
     [(''gross_salary'', PyFloat (Finite False 1000)), (''tax_deducted'', PyStr (cps '',''))]
     [] = Inl TypeError"
  by (simp add: perform_calculations_def)

text \<open>
  C4. The claim: \<^verbatim>\<open>income_difference\<close> is produced exactly when \<^verbatim>\<open>total_income\<close>
  is in the tax document mapping and rule 1 has produced \<^verbatim>\<open>annual_salary\<close>, as their
  difference. On \<^verbatim>\<open>{'net_amount': ','}\<close> and \<^verbatim>\<open>{'total_income': 700000}\<close> rule 1
  produces \<^verbatim>\<open>annual_salary\<close>, the string repeated twelve times, \<^verbatim>\<open>total_income\<close> is
  present, and rule 5 subtracts the string from the float: the call raises TypeError
  and produces no \<^verbatim>\<open>income_difference\<close>.
\<close>

theorem income_difference_raises_on_raw_string:
  "perform_calculations [(''net_amount'', PyStr (cps '',''))]
     [(''total_income'', PyFloat (Finite False 700000))] = Inl TypeError"
  by (simp add: perform_calculations_def float_eval)

section \<open>The extractors and the table on the examples of the specification\<close>

text \<open>
  C5. Extracting the salary fields of the text \<^verbatim>\<open>Basic Salary: Rs. 45,000.50\<close> gives
  the mapping with the one entry \<^verbatim>\<open>basic_salary\<close>, the float 45000.5: the currency
  marker is skipped, the comma is removed, the rest is parsed as a float.
\<close>

theorem extract_basic_salary:
  "extract_salary_fields (cps ''Basic Salary: Rs. 45,000.50'') =
     Inr [(''basic_salary'', PyFloat (Finite False 45000.5))]"
  by (simp add: cps_def extract_eval regex_eval py_float_eval float_eval)

text \<open>
  C7. Extracting the salary fields of \<^verbatim>\<open>EMPLOYEE NAME: Jane Doe\<close> and of
  \<^verbatim>\<open>employee name : Jane Doe\<close> gives \<^verbatim>\<open>employee_name\<close> as \<^verbatim>\<open>Jane Doe\<close> both
  times, and no other field.
\<close>

theorem extract_employee_name_any_case:
  "extract_salary_fields (cps ''EMPLOYEE NAME: Jane Doe'') =
     Inr [(''employee_name'', PyStr (cps ''Jane Doe''))] \<and>
   extract_salary_fields (cps ''employee name : Jane Doe'') =
     Inr [(''employee_name'', PyStr (cps ''Jane Doe''))]"
  by (simp add: cps_def extract_eval regex_eval)

text \<open>
  C8. The metrics mapping \<^verbatim>\<open>{annual_tax: 6000}\<close> becomes the one row with the label
  \<^verbatim>\<open>Annual Tax\<close> and the display string of the rupee sign (U+20B9, code point 8377),
  a blank and \<^verbatim>\<open>6,000.00\<close>.
\<close>

theorem calc_df_annual_tax:
  "calc_df [(''annual_tax'', PyFloat (Finite False 6000))] =
     [(cps ''Annual Tax'', PyStr (8377 # cps '' 6,000.00''))]"
  by (simp add: calc_df_def label_of_def cps_def ascii_upper_def ascii_lower_def
      round_half_even_def Let_def)

text \<open>
  C10. The fallback of the numeric parse is reached through the extractors: in the text
  \<^verbatim>\<open>Net: ,\<close> the pattern of \<^verbatim>\<open>net_amount\<close> matches and captures a lone comma, which
  is the empty string once the commas are removed and parses to no number, and the
  returned mapping holds the captured string; likewise \<^verbatim>\<open>Tax Paid: ,\<close> for the tax
  document extractor.
\<close>

theorem fallback_reachable:
  "search (currency_rule
       [''Net Amount'', ''Net Salary'', ''Net Pay'', ''Take Home'', ''Total'', ''Net''])
     (cps ''Net: ,'') = Some (Some (cps '','')) \<and>
   py_float (remove_commas (cps '','')) = None \<and>
   extract_salary_fields (cps ''Net: ,'') = Inr [(''net_amount'', PyStr (cps '',''))] \<and>
   extract_itr_fields (cps ''Tax Paid: ,'') = Inr [(''tax_paid'', PyStr (cps '',''))]"
  by (simp add: cps_def extract_eval regex_eval py_float_eval)

section \<open>Properties of the matcher and of the extraction loop\<close>

lemma in_set_append: "in_set (a @ b) c = (in_set a c \<or> in_set b c)"
  by (simp add: in_set_def)

lemma star_consumes:
  "u \<in> set (star its t) \<Longrightarrow> \<exists>p. t = p @ u \<and> list_all (in_set its) p"
proof (induction t)
  case Nil
  then show ?case by simp
next
  case (Cons c t)
  show ?case
  proof (cases "u = c # t")
    case True
    then show ?thesis by simp
  next
    case False
    with Cons.prems have "in_set its c" "u \<in> set (star its t)"
      by (auto split: if_splits)
    with Cons.IH obtain p where "t = p @ u" "list_all (in_set its) p" by blast
    with \<open>in_set its c\<close> have "c # t = (c # p) @ u \<and> list_all (in_set its) (c # p)" by simp
    then show ?thesis by blast
  qed
qed

lemma list_all_in_set_mono:
  "list_all (in_set a) p \<Longrightarrow> list_all (in_set (a @ b)) p"
  "list_all (in_set b) p \<Longrightarrow> list_all (in_set (a @ b)) p"
  by (simp_all add: list_all_iff in_set_append)

lemma rmatch_consumes:
  "(u, h) \<in> set (rmatch r (t, g)) \<Longrightarrow> \<exists>p. t = p @ u \<and> list_all (in_set (atoms r)) p"
proof (induction r arbitrary: t g u h)
  case Eps
  then show ?case by simp
next
  case (Atom its)
  then show ?case by (auto split: list.splits if_splits)
next
  case (Seq r1 r2)
  from Seq.prems obtain v k where 1: "(v, k) \<in> set (rmatch r1 (t, g))"
    and 2: "(u, h) \<in> set (rmatch r2 (v, k))" by auto
  from Seq.IH(1) [OF 1] obtain p where p: "t = p @ v" "list_all (in_set (atoms r1)) p" by blast
  from Seq.IH(2) [OF 2] obtain q where q: "v = q @ u" "list_all (in_set (atoms r2)) q" by blast
  from p q have "t = (p @ q) @ u \<and> list_all (in_set (atoms (Seq r1 r2))) (p @ q)"
    by (simp add: list_all_in_set_mono)
  then show ?case by blast
next
  case (Alt r1 r2)
  from Alt.prems have "(u, h) \<in> set (rmatch r1 (t, g)) \<or> (u, h) \<in> set (rmatch r2 (t, g))"
    by simp
  then show ?case
  proof
    assume "(u, h) \<in> set (rmatch r1 (t, g))"
    from Alt.IH(1) [OF this] show ?thesis by (auto simp: list_all_in_set_mono)
  next
    assume "(u, h) \<in> set (rmatch r2 (t, g))"
    from Alt.IH(2) [OF this] show ?thesis by (auto simp: list_all_in_set_mono)
  qed
next
  case (Opt r)
  from Opt.prems have "(u, h) \<in> set (rmatch r (t, g)) \<or> u = t" by auto
  then show ?case
  proof
    assume "(u, h) \<in> set (rmatch r (t, g))"
    from Opt.IH [OF this] show ?thesis by simp
  next
    assume "u = t"
    then show ?thesis by simp
  qed
next
  case (Star its)
  then show ?case using star_consumes [of u its t] by auto
next
  case (Plus its)
  from Plus.prems obtain c v where c: "t = c # v" "in_set its c" "u \<in> set (star its v)"
    by (auto split: list.splits if_splits)
  from star_consumes [OF c(3)] obtain p where "v = p @ u" "list_all (in_set its) p" by blast
  with c have "t = (c # p) @ u \<and> list_all (in_set (atoms (Plus its))) (c # p)" by simp
  then show ?case by blast
next
  case (Grp r)
  then show ?case by auto
qed

lemma rmatch_group:
  "(u, h) \<in> set (rmatch r (t, g)) \<Longrightarrow>
   h = g \<or> (\<exists>p. h = Some p \<and> list_all (in_set (group_atoms r)) p)"
proof (induction r arbitrary: t g u h)
  case (Seq r1 r2)
  from Seq.prems obtain v k where 1: "(v, k) \<in> set (rmatch r1 (t, g))"
    and 2: "(u, h) \<in> set (rmatch r2 (v, k))" by auto
  from Seq.IH(1) [OF 1] Seq.IH(2) [OF 2] show ?case
    by (auto simp: list_all_in_set_mono)
next
  case (Alt r1 r2)
  from Alt.prems have "(u, h) \<in> set (rmatch r1 (t, g)) \<or> (u, h) \<in> set (rmatch r2 (t, g))"
    by simp
  then show ?case
  proof
    assume "(u, h) \<in> set (rmatch r1 (t, g))"
    from Alt.IH(1) [OF this] show ?thesis by (auto simp: list_all_in_set_mono)
  next
    assume "(u, h) \<in> set (rmatch r2 (t, g))"
    from Alt.IH(2) [OF this] show ?thesis by (auto simp: list_all_in_set_mono)
  qed
next
  case (Opt r)
  from Opt.prems have "(u, h) \<in> set (rmatch r (t, g)) \<or> h = g" by auto
  then show ?case
  proof
    assume "(u, h) \<in> set (rmatch r (t, g))"
    from Opt.IH [OF this] show ?thesis by simp
  next
    assume "h = g"
    then show ?thesis by simp
  qed
next
  case (Grp r)
  from Grp.prems obtain k where k: "(u, k) \<in> set (rmatch r (t, g))"
    and h: "h = Some (take (length t - length u) t)" by auto
  from rmatch_consumes [OF k] obtain p where "t = p @ u" "list_all (in_set (atoms r)) p" by blast
  with h show ?case by simp
qed (auto split: list.splits if_splits)

lemma rmatch_keeps_group:
  "(u, h) \<in> set (rmatch r (t, g)) \<Longrightarrow> g \<noteq> None \<Longrightarrow> h \<noteq> None"
  using rmatch_group [of u h r t g] by auto

lemma rmatch_binds:
  "binds r \<Longrightarrow> (u, h) \<in> set (rmatch r (t, g)) \<Longrightarrow> h \<noteq> None"
proof (induction r arbitrary: t g u h)
  case (Seq r1 r2)
  from Seq.prems(2) obtain v k where 1: "(v, k) \<in> set (rmatch r1 (t, g))"
    and 2: "(u, h) \<in> set (rmatch r2 (v, k))" by auto
  show ?case
  proof (cases "binds r1")
    case True
    from Seq.IH(1) [OF True 1] rmatch_keeps_group [OF 2] show ?thesis by simp
  next
    case False
    with Seq.prems(1) have "binds r2" by simp
    from Seq.IH(2) [OF this 2] show ?thesis .
  qed
next
  case (Alt r1 r2)
  then show ?case by auto
qed auto

lemma search_result:
  "search r doc = Some h \<Longrightarrow> \<exists>u t. (u, h) \<in> set (rmatch r (t, None))"
proof (induction doc)
  case Nil
  show ?case
  proof (cases "rmatch r ([], None)")
    case Nil
    with \<open>search r [] = Some h\<close> show ?thesis by simp
  next
    case (Cons m ms)
    with \<open>search r [] = Some h\<close> have "h = snd m" by simp
    with Cons have "(fst m, h) \<in> set (rmatch r ([], None))" by simp
    then show ?thesis by blast
  qed
next
  case (Cons c doc)
  show ?case
  proof (cases "rmatch r (c # doc, None)")
    case Nil
    with Cons show ?thesis by simp
  next
    case (Cons m ms)
    with Cons.prems have "h = snd m" by simp
    with Cons have "(fst m, h) \<in> set (rmatch r (c # doc, None))" by simp
    then show ?thesis by blast
  qed
qed

lemma search_binds: "binds r \<Longrightarrow> search r doc \<noteq> Some None"
proof
  assume b: "binds r" and "search r doc = Some None"
  from search_result [OF this(2)] obtain u t where "(u, None) \<in> set (rmatch r (t, None))"
    by blast
  from rmatch_binds [OF b this] show False by simp
qed

lemma search_group:
  "search r doc = Some (Some p) \<Longrightarrow> list_all (in_set (group_atoms r)) p"
proof -
  assume "search r doc = Some (Some p)"
  from search_result [OF this] obtain u t where "(u, Some p) \<in> set (rmatch r (t, None))"
    by blast
  from rmatch_group [OF this] show ?thesis by simp
qed

lemma dom_update_keys: "fst ` set (AList.update k v al) = insert k (fst ` set al)"
  by (simp add: dom_update)

lemma extract_field_keys:
  assumes "binds (snd rule)"
  shows "\<exists>d. extract_field cur doc results rule = Inr d \<and>
           fst ` set d \<subseteq> insert (fst rule) (fst ` set results)"
proof (cases "search (snd rule) doc")
  case None
  then show ?thesis by (auto simp: extract_field_def)
next
  case (Some h)
  with search_binds [OF assms, of doc] obtain p where "search (snd rule) doc = Some (Some p)"
    by (cases h) auto
  then show ?thesis
    by (auto simp: extract_field_def dom_update_keys split: option.splits)
qed

lemma extract_loop_keys:
  assumes "list_all (\<lambda>rule. binds (snd rule)) rules"
  shows "\<exists>d. extract_loop cur doc rules results = Inr d \<and>
           fst ` set d \<subseteq> fst ` set results \<union> fst ` set rules"
  using assms
proof (induction rules arbitrary: results)
  case Nil
  then show ?case by simp
next
  case (Cons rule rules)
  from Cons.prems have b: "binds (snd rule)" and bs: "list_all (\<lambda>rule. binds (snd rule)) rules"
    by simp_all
  from extract_field_keys [OF b, of cur doc results] obtain d1 where
    d1: "extract_field cur doc results rule = Inr d1"
      "fst ` set d1 \<subseteq> insert (fst rule) (fst ` set results)" by blast
  from Cons.IH [OF bs, of d1] obtain d where
    d: "extract_loop cur doc rules d1 = Inr d" "fst ` set d \<subseteq> fst ` set d1 \<union> fst ` set rules"
    by blast
  from d1(1) d(1) have "extract_loop cur doc (rule # rules) results = Inr d"
    by simp
  moreover have "fst ` set d1 \<union> fst ` set rules \<subseteq>
      insert (fst rule) (fst ` set results) \<union> fst ` set rules"
    using d1(2) by (rule Un_mono) (rule order_refl)
  with d(2) have "fst ` set d \<subseteq> insert (fst rule) (fst ` set results) \<union> fst ` set rules"
    by (rule order_trans)
  then have "fst ` set d \<subseteq> fst ` set results \<union> fst ` set (rule # rules)"
    by (simp add: insert_commute Un_commute)
  ultimately show ?case by blast
qed

lemma salary_patterns_bind: "list_all (\<lambda>rule. binds (snd rule)) salary_patterns"
  by (simp add: salary_patterns_def text_rule_def currency_rule_def seqs_def)

lemma itr_patterns_bind: "list_all (\<lambda>rule. binds (snd rule)) itr_patterns"
  by (simp add: itr_patterns_def text_rule_def currency_rule_def seqs_def)

text \<open>
  C9. For every text the salary extractor returns a mapping whose keys are among the
  eight fields of its patterns, and the tax document extractor one whose keys are among the
  six fields of its patterns; neither raises.
\<close>

theorem key_set_invariant:
  "(\<exists>d. extract_salary_fields doc = Inr d \<and>
      fst ` set d \<subseteq> {''employee_name'', ''employee_id'', ''basic_salary'', ''hra'', ''pf'',
                        ''gross_salary'', ''net_amount'', ''tax_deducted''}) \<and>
   (\<exists>d. extract_itr_fields doc = Inr d \<and>
      fst ` set d \<subseteq> {''pan'', ''assessment_year'', ''total_income'', ''taxable_income'',
                        ''tax_payable'', ''tax_paid''})"
proof
  from extract_loop_keys [OF salary_patterns_bind, of salary_currency doc "[]"]
  show "\<exists>d. extract_salary_fields doc = Inr d \<and>
      fst ` set d \<subseteq> {''employee_name'', ''employee_id'', ''basic_salary'', ''hra'', ''pf'',
                        ''gross_salary'', ''net_amount'', ''tax_deducted''}"
    by (simp add: extract_salary_fields_def salary_patterns_def)
  from extract_loop_keys [OF itr_patterns_bind, of itr_currency doc "[]"]
  show "\<exists>d. extract_itr_fields doc = Inr d \<and>
      fst ` set d \<subseteq> {''pan'', ''assessment_year'', ''total_income'', ''taxable_income'',
                        ''tax_payable'', ''tax_paid''}"
    by (simp add: extract_itr_fields_def itr_patterns_def)
qed

theorem key_set_invariant_witness:
  "(\<exists>d. extract_salary_fields (cps ''Net: 5 and PAN ab1'') = Inr d \<and>
      fst ` set d \<subseteq> {''employee_name'', ''employee_id'', ''basic_salary'', ''hra'', ''pf'',
                        ''gross_salary'', ''net_amount'', ''tax_deducted''}) \<and>
   (\<exists>d. extract_itr_fields (cps ''Net: 5 and PAN ab1'') = Inr d \<and>
      fst ` set d \<subseteq> {''pan'', ''assessment_year'', ''total_income'', ''taxable_income'',
                        ''tax_payable'', ''tax_paid''})"
  by (rule key_set_invariant)

subsection \<open>The captured group of a currency pattern\<close>

lemma is_decimal_iff: "is_decimal c = list_ex (\<lambda>z. z \<le> c \<and> c < z + 10) decimal_zeros"
proof -
  have "is_decimal c = (filter (\<lambda>z. z \<le> c \<and> c < z + 10) decimal_zeros \<noteq> [])"
    by (simp add: is_decimal_def decimal_value_def split: list.splits)
  then show ?thesis
    by (simp add: filter_empty_conv list_ex_iff)
qed

lemma is_space_cases:
  "is_space c \<Longrightarrow>
   c \<in> set [9, 10, 11, 12, 13, 28, 29, 30, 31, 32, 133, 160, 5760, 8192, 8193, 8194, 8195,
             8196, 8197, 8198, 8199, 8200, 8201, 8202, 8232, 8233, 8239, 8287, 12288]"
  unfolding is_space_def by simp presburger

lemma spaces_not_decimal:
  "list_all (\<lambda>c. \<not> is_decimal c)
     [9, 10, 11, 12, 13, 28, 29, 30, 31, 32, 133, 160, 5760, 8192, 8193, 8194, 8195,
      8196, 8197, 8198, 8199, 8200, 8201, 8202, 8232, 8233, 8239, 8287, 12288]"
  by (simp add: is_decimal_def decimal_value_def decimal_zeros_def)

lemma decimal_not_space: "is_decimal c \<Longrightarrow> \<not> is_space c"
  using is_space_cases [of c] spaces_not_decimal by (auto simp: list_all_iff)

lemma decimal_zeros_bounds: "list_all (\<lambda>z. z = 48 \<or> 1632 \<le> z) decimal_zeros"
  by (simp add: decimal_zeros_def)

lemma decimal_range: "is_decimal c \<Longrightarrow> (48 \<le> c \<and> c < 58) \<or> 1632 \<le> c"
  using decimal_zeros_bounds by (auto simp: is_decimal_iff list_ex_iff list_all_iff)

lemma decimal_lowered: "is_decimal (sre_lower c) \<Longrightarrow> sre_lower c = c"
  using decimal_range [of "sre_lower c"] by (auto simp: sre_lower_def split: if_splits)

lemma amount_chars_not_space:
  assumes "in_set [Digit, chr CHR '','', chr CHR ''.'', Digit] c"
  shows "\<not> is_space c"
proof -
  from assms have "is_decimal (sre_lower c) \<or> sre_lower c = 44 \<or> sre_lower c = 46"
    by (auto simp: in_set_def chr_def literal_has_def sre_lower_def fixes_of_def)
  then show ?thesis
  proof (elim disjE)
    assume d: "is_decimal (sre_lower c)"
    with decimal_lowered [OF d] decimal_not_space [of c] show ?thesis by simp
  next
    assume "sre_lower c = 44"
    then show ?thesis by (auto simp: sre_lower_def is_space_def split: if_splits)
  next
    assume "sre_lower c = 46"
    then show ?thesis by (auto simp: sre_lower_def is_space_def split: if_splits)
  qed
qed

lemma dropWhile_none: "list_all (\<lambda>c. \<not> P c) s \<Longrightarrow> dropWhile P s = s"
  by (cases s) simp_all

lemma py_strip_no_space: "list_all (\<lambda>c. \<not> is_space c) s \<Longrightarrow> py_strip s = s"
  by (simp add: py_strip_def dropWhile_none list_all_iff)

lemma group_atoms_lit [simp]: "group_atoms (lit s) = []"
  by (induction s) (simp_all add: lit_def)

lemma group_atoms_alts_lit [simp]: "group_atoms (alts (map lit labels)) = []"
  by (induction labels) (simp_all add: alts_def)

lemma group_atoms_currency_rule:
  "group_atoms (currency_rule labels) = [Digit, chr CHR '','', chr CHR ''.'', Digit]"
  using group_atoms_alts_lit [of labels] group_atoms_alts_lit [of "[''INR'']"]
    group_atoms_lit [of "''Rs''"] group_atoms_lit [of "'':''"] group_atoms_lit [of "''.''"]
  by (simp add: currency_rule_def amount_def seqs_def alts_def lit_def)

lemma currency_capture_no_space:
  assumes "search (currency_rule labels) doc = Some (Some g)"
  shows "list_all (\<lambda>c. \<not> is_space c) g"
proof -
  from search_group [OF assms]
  have "list_all (in_set [Digit, chr CHR '','', chr CHR ''.'', Digit]) g"
    by (simp add: group_atoms_currency_rule)
  then show ?thesis
    using amount_chars_not_space by (simp add: list_all_iff)
qed


lemma extract_field_other:
  "extract_field cur doc results rule = Inr d \<Longrightarrow> k \<noteq> fst rule \<Longrightarrow>
   map_of d k = map_of results k"
  by (auto simp: extract_field_def update_conv' split: option.splits if_splits)

lemma extract_loop_other:
  "extract_loop cur doc rules results = Inr d \<Longrightarrow> k \<notin> fst ` set rules \<Longrightarrow>
   map_of d k = map_of results k"
proof (induction rules arbitrary: results)
  case Nil
  then show ?case by simp
next
  case (Cons rule rules)
  from Cons.prems(1) obtain d1 where d1: "extract_field cur doc results rule = Inr d1"
    and d: "extract_loop cur doc rules d1 = Inr d"
    by (cases "extract_field cur doc results rule") simp_all
  from Cons.prems(2) have k: "k \<noteq> fst rule" "k \<notin> fst ` set rules" by auto
  from Cons.IH [OF d k(2)] extract_field_other [OF d1 k(1)] show ?case by simp
qed

lemma extract_field_fallback:
  assumes "search (snd rule) doc = Some (Some g)" and "fst rule \<in> set cur"
    and "py_float (remove_commas g) = None"
  shows "extract_field cur doc results rule = Inr (AList.update (fst rule) (PyStr g) results)"
  using assms by (simp add: extract_field_def)

lemma extract_loop_fallback:
  assumes "distinct (map fst rules)" and "list_all (\<lambda>rule. binds (snd rule)) rules"
    and "rule \<in> set rules" and "search (snd rule) doc = Some (Some g)"
    and "fst rule \<in> set cur" and "py_float (remove_commas g) = None"
    and "extract_loop cur doc rules results = Inr d"
  shows "map_of d (fst rule) = Some (PyStr g)"
  using assms(1,2,3,7)
proof (induction rules arbitrary: results)
  case Nil
  then show ?case by simp
next
  case (Cons r rules)
  from Cons.prems(4) obtain d1 where d1: "extract_field cur doc results r = Inr d1"
    and d: "extract_loop cur doc rules d1 = Inr d"
    by (cases "extract_field cur doc results r") simp_all
  show ?case
  proof (cases "rule = r")
    case True
    with d1 extract_field_fallback [OF assms(4,5,6), of results]
    have "d1 = AList.update (fst rule) (PyStr g) results" by simp
    then have "map_of d1 (fst rule) = Some (PyStr g)" by (simp add: update_conv')
    moreover from Cons.prems(1) True have "fst rule \<notin> fst ` set rules" by simp
    ultimately show ?thesis using extract_loop_other [OF d] by simp
  next
    case False
    with Cons.prems have "distinct (map fst rules)"
      "list_all (\<lambda>rule. binds (snd rule)) rules" "rule \<in> set rules" by simp_all
    from Cons.IH [OF this d] show ?thesis .
  qed
qed

lemma salary_currency_rules:
  "rule \<in> set salary_patterns \<Longrightarrow> fst rule \<in> set salary_currency \<Longrightarrow>
   \<exists>labels. snd rule = currency_rule labels"
  by (auto simp: salary_patterns_def salary_currency_def)

lemma itr_currency_rules:
  "rule \<in> set itr_patterns \<Longrightarrow> fst rule \<in> set itr_currency \<Longrightarrow>
   \<exists>labels. snd rule = currency_rule labels"
  by (auto simp: itr_patterns_def itr_currency_def)

lemma salary_patterns_distinct: "distinct (map fst salary_patterns)"
  by (simp add: salary_patterns_def)

lemma itr_patterns_distinct: "distinct (map fst itr_patterns)"
  by (simp add: itr_patterns_def)

lemma currency_fallback_stored:
  assumes "distinct (map fst rules)" and "list_all (\<lambda>rule. binds (snd rule)) rules"
    and "extract_loop cur doc rules [] = Inr d"
    and "rule \<in> set rules" and "fst rule \<in> set cur"
    and "\<exists>labels. snd rule = currency_rule labels"
    and "search (snd rule) doc = Some (Some g)" and "py_float (remove_commas g) = None"
  shows "map_of d (fst rule) = Some (PyStr (py_strip g)) \<and> py_strip g = g"
proof -
  from assms(6,7) obtain labels where "search (currency_rule labels) doc = Some (Some g)"
    by auto
  from py_strip_no_space [OF currency_capture_no_space [OF this]]
  have "py_strip g = g" .
  with extract_loop_fallback [OF assms(1,2,4,7,5,8,3)] show ?thesis by simp
qed

text \<open>
  C6. For every text each extractor returns, and for every currency rule of its patterns
  whose pattern matches with a captured group that parses to no number once the commas are
  removed, the returned mapping holds under the rule's field the captured string, trimmed.
  The source stores the group as it was captured, which is the same string: a group of a
  currency pattern has no white space in it.
\<close>

theorem coercion_fallback:
  "(\<exists>d. extract_salary_fields doc = Inr d \<and>
      (\<forall>rule g. rule \<in> set salary_patterns \<and> fst rule \<in> set salary_currency \<and>
           search (snd rule) doc = Some (Some g) \<and> py_float (remove_commas g) = None \<longrightarrow>
         map_of d (fst rule) = Some (PyStr (py_strip g)) \<and> py_strip g = g)) \<and>
   (\<exists>d. extract_itr_fields doc = Inr d \<and>
      (\<forall>rule g. rule \<in> set itr_patterns \<and> fst rule \<in> set itr_currency \<and>
           search (snd rule) doc = Some (Some g) \<and> py_float (remove_commas g) = None \<longrightarrow>
         map_of d (fst rule) = Some (PyStr (py_strip g)) \<and> py_strip g = g))"
proof
  from extract_loop_keys [OF salary_patterns_bind, of salary_currency doc "[]"]
  obtain d where d: "extract_loop salary_currency doc salary_patterns [] = Inr d" by blast
  have "\<forall>rule g. rule \<in> set salary_patterns \<and> fst rule \<in> set salary_currency \<and>
           search (snd rule) doc = Some (Some g) \<and> py_float (remove_commas g) = None \<longrightarrow>
         map_of d (fst rule) = Some (PyStr (py_strip g)) \<and> py_strip g = g"
    using currency_fallback_stored [OF salary_patterns_distinct salary_patterns_bind d]
      salary_currency_rules by blast
  with d show "\<exists>d. extract_salary_fields doc = Inr d \<and>
      (\<forall>rule g. rule \<in> set salary_patterns \<and> fst rule \<in> set salary_currency \<and>
           search (snd rule) doc = Some (Some g) \<and> py_float (remove_commas g) = None \<longrightarrow>
         map_of d (fst rule) = Some (PyStr (py_strip g)) \<and> py_strip g = g)"
    unfolding extract_salary_fields_def by blast
next
  from extract_loop_keys [OF itr_patterns_bind, of itr_currency doc "[]"]
  obtain d where d: "extract_loop itr_currency doc itr_patterns [] = Inr d" by blast
  have "\<forall>rule g. rule \<in> set itr_patterns \<and> fst rule \<in> set itr_currency \<and>
           search (snd rule) doc = Some (Some g) \<and> py_float (remove_commas g) = None \<longrightarrow>
         map_of d (fst rule) = Some (PyStr (py_strip g)) \<and> py_strip g = g"
    using currency_fallback_stored [OF itr_patterns_distinct itr_patterns_bind d]
      itr_currency_rules by blast
  with d show "\<exists>d. extract_itr_fields doc = Inr d \<and>
      (\<forall>rule g. rule \<in> set itr_patterns \<and> fst rule \<in> set itr_currency \<and>
           search (snd rule) doc = Some (Some g) \<and> py_float (remove_commas g) = None \<longrightarrow>
         map_of d (fst rule) = Some (PyStr (py_strip g)) \<and> py_strip g = g)"
    unfolding extract_itr_fields_def by blast
qed

theorem coercion_fallback_witness:
  "search (currency_rule [''Tax Deducted'', ''TDS'', ''Income Tax'']) (cps ''TDS ,.'') =
     Some (Some (cps '',.'')) \<and>
   py_float (remove_commas (cps '',.'')) = None \<and>
   (\<exists>d. extract_salary_fields (cps ''TDS ,.'') = Inr d \<and>
        map_of d ''tax_deducted'' = Some (PyStr (cps '',.'')))"
proof -
  have s: "search (snd (''tax_deducted'', currency_rule [''Tax Deducted'', ''TDS'', ''Income Tax'']))
             (cps ''TDS ,.'') = Some (Some (cps '',.''))"
    by (simp add: cps_def regex_eval)
  have f: "py_float (remove_commas (cps '',.'')) = None"
    by (simp add: cps_def remove_commas_def py_float_eval)
  have m: "(''tax_deducted'', currency_rule [''Tax Deducted'', ''TDS'', ''Income Tax''])
             \<in> set salary_patterns"
    by (simp add: salary_patterns_def)
  have c: "fst (''tax_deducted'', currency_rule [''Tax Deducted'', ''TDS'', ''Income Tax''])
             \<in> set salary_currency"
    by (simp add: salary_currency_def)
  from coercion_fallback [of "cps ''TDS ,.''"] obtain d where
    d: "extract_salary_fields (cps ''TDS ,.'') = Inr d" and
    a: "\<forall>rule g. rule \<in> set salary_patterns \<and> fst rule \<in> set salary_currency \<and>
           search (snd rule) (cps ''TDS ,.'') = Some (Some g) \<and>
           py_float (remove_commas g) = None \<longrightarrow>
         map_of d (fst rule) = Some (PyStr (py_strip g)) \<and> py_strip g = g"
    by blast
  from a m c s f have "map_of d ''tax_deducted'' = Some (PyStr (cps '',.''))"
    by fastforce
  with d s f show ?thesis by auto
qed

end
